theory Spec2Isabelle
  imports Complex_Main "HOL-Library.AList"
begin

section \<open>PSG Bunker: a shallow embedding of \<open>app.py\<close>\<close>

text \<open>
  The Flask application is modelled request by request. Module state (the table
  \<open>login_attempts\<close>) and the per-client Flask session are passed explicitly and returned
  updated. The collaborator module \<open>bunker_mod\<close> is a record of functions whose results
  are either a raised exception or a value. Timestamps returned by \<open>time()\<close> and the
  numbers of the attendance records are taken as the real numbers they denote, so the
  arithmetic of the model is exact: the rounding of floating-point operations is not
  modelled. Characters are code points below 256. The fields of a login request are
  strings (as every HTML form field is); a request body that does not parse, or a JSON
  body with non-string credentials, is outside the model. Logging is left out.
\<close>

subsection \<open>Data\<close>

type_synonym timestamp = real

datatype jval = JNum real | JStr string

text \<open>A subject record is a Python dict; insertion order is kept.\<close>

type_synonym subject = "(string \<times> jval) list"

text \<open>
  The Flask session. A key that is not in the session is \<open>None\<close>. The attribute
  \<open>permanent\<close> reads as \<open>False\<close> when it was never set.
\<close>

record ('cg, 'cp) session =
  rollno :: "string option"
  attendance_data :: "subject list option"
  cgpa_data :: "'cg option"
  course_plan :: "'cp option"
  permanent :: bool

definition empty_session :: "('cg, 'cp) session" where
  "empty_session = \<lparr>rollno = None, attendance_data = None, cgpa_data = None,
     course_plan = None, permanent = False\<rparr>"

text \<open>
  A POST to \<open>/login\<close>: the client address, whether the body is JSON, and the fields
  \<open>rollno\<close>, \<open>password\<close> and \<open>remember_me\<close> of the body (\<open>None\<close> when the key is absent).
  In a JSON body \<open>remember_me\<close> is a boolean, in a form it is a string.
\<close>

record request =
  remote_addr :: string
  is_json :: bool
  rollno_arg :: "string option"
  password_arg :: "string option"
  remember_me_json :: "bool option"
  remember_me_form :: "string option"

text \<open>The JSON object built at the end of \<open>get_attendance\<close>.\<close>

record report =
  subjects :: "subject list"
  total_days :: real
  attended_days :: real
  percentage :: real
  need_days :: int
  bunkable_days :: int

text \<open>
  What a view returns: the body and the HTTP status. For \<open>Jsonify_cgpa\<close> and
  \<open>Jsonify_courses\<close>, and for the \<open>cgpa\<close> argument of the dashboard template, \<open>None\<close>
  is the default \<open>{}\<close> of \<open>flask_session.get\<close>.
\<close>

datatype ('cg, 'cp) content =
    Jsonify_message bool string
  | Jsonify_error string
  | Jsonify_attendance report
  | Jsonify_cgpa "'cg option"
  | Jsonify_courses "'cp option"
  | Jsonify_health
  | Render_index "string option"
  | Render_dashboard string "subject list" "'cg option"
  | Redirect string
  | Send_file string

type_synonym ('cg, 'cp) response = "('cg, 'cp) content \<times> nat"

definition status :: "('cg, 'cp) response \<Rightarrow> nat" where
  "status r = snd r"

text \<open>The message a response carries: the JSON field \<open>message\<close> or the template's \<open>error\<close>.\<close>

fun message :: "('cg, 'cp) response \<Rightarrow> string option" where
  "message (Jsonify_message ok m, code) = Some m"
| "message (Render_index e, code) = e"
| "message (other, code) = None"

subsection \<open>The collaborator module\<close>

text \<open>
  \<open>return_attendance\<close> answers with a string, with a pair, or with something else (whose
  unpacking into two names raises). An exception is represented by its text \<open>str(e)\<close>.
\<close>

type_synonym exn = string

datatype ('raw, 'so) scraped = RStr string | RPair 'raw 'so | ROther

record ('raw, 'so, 'cg, 'cp) bunker_mod =
  return_attendance :: "string \<Rightarrow> string \<Rightarrow> exn + ('raw, 'so) scraped"
  get_course_plan :: "'so \<Rightarrow> exn + 'cp"
  data_json :: "'raw \<Rightarrow> 'cp \<Rightarrow> exn + subject list"
  return_cgpa :: "'so \<Rightarrow> exn + 'cg"

text \<open>The calls a request makes to the collaborator, in order.\<close>

datatype ext_call =
    Call_return_attendance string string
  | Call_get_course_plan
  | Call_data_json
  | Call_return_cgpa

subsection \<open>Strings: \<open>str.strip\<close> and the roll number pattern\<close>

definition is_digit :: "char \<Rightarrow> bool" where
  "is_digit c = (let n = (of_char c :: nat) in 48 \<le> n \<and> n \<le> 57)"

definition is_alpha :: "char \<Rightarrow> bool" where
  "is_alpha c = (let n = (of_char c :: nat) in (65 \<le> n \<and> n \<le> 90) \<or> (97 \<le> n \<and> n \<le> 122))"

text \<open>\<open>str.isspace\<close> on the code points below 256.\<close>

definition is_space :: "char \<Rightarrow> bool" where
  "is_space c = (let n = (of_char c :: nat) in
     (9 \<le> n \<and> n \<le> 13) \<or> (28 \<le> n \<and> n \<le> 32) \<or> n = 133 \<or> n = 160)"

definition strip :: "string \<Rightarrow> string" where
  "strip s = rev (dropWhile is_space (rev (dropWhile is_space s)))"

text \<open>
  A backtracking matcher for \<open>[class]{lo,hi}\<close> followed by the rest of the pattern \<open>k\<close>:
  greedy, one character at a time, falling back to the continuation once \<open>lo\<close>
  characters have been taken.
\<close>

fun repeat :: "(char \<Rightarrow> bool) \<Rightarrow> nat \<Rightarrow> nat \<Rightarrow> (string \<Rightarrow> bool) \<Rightarrow> string \<Rightarrow> bool" where
  "repeat P lo 0 k s = (lo = 0 \<and> k s)"
| "repeat P lo (Suc hi) k [] = (lo = 0 \<and> k [])"
| "repeat P lo (Suc hi) k (c # cs) =
     ((P c \<and> repeat P (lo - 1) hi k cs) \<or> (lo = 0 \<and> k (c # cs)))"

text \<open>\<open>$\<close> without \<open>re.MULTILINE\<close>: the end of the string, or just before a final newline.\<close>

definition at_end :: "string \<Rightarrow> bool" where
  "at_end s = (s = [] \<or> s = [CHR 0x0A])"

text \<open>\<open>re.match(r'^\d{2}[A-Za-z]{1,4}\d{1,4}$', s)\<close> is not \<open>None\<close>.\<close>

definition re_match_rollno :: "string \<Rightarrow> bool" where
  "re_match_rollno s = repeat is_digit 2 2 (repeat is_alpha 1 4 (repeat is_digit 1 4 at_end)) s"

subsection \<open>The rate limiter\<close>

text \<open>
  \<open>login_attempts = defaultdict(list)\<close>: every address has a list, empty at first.
\<close>

type_synonym attempts = "string \<Rightarrow> timestamp list"

definition too_many :: "string" where
  "too_many = ''Too many login attempts. Please try again later.''"

text \<open>
  The decorator \<open>rate_limit(max_attempts, time_window)\<close> around a view \<open>f\<close>. The view
  gets the request and the session and returns its response, the session and the
  collaborator calls it made; the decorated view also takes the clock reading \<open>now\<close>
  and the table of attempts, and returns the table.
\<close>

definition rate_limit ::
  "nat \<Rightarrow> real \<Rightarrow> (request \<Rightarrow> 's \<Rightarrow> ('cg, 'cp) response \<times> 's \<times> ext_call list) \<Rightarrow>
   timestamp \<Rightarrow> request \<Rightarrow> attempts \<Rightarrow> 's \<Rightarrow>
   ('cg, 'cp) response \<times> attempts \<times> 's \<times> ext_call list" where
  "rate_limit max_attempts time_window f now req login_attempts sess =
     (let ip = remote_addr req;
          cleaned = login_attempts
            (ip := filter (\<lambda>attempt. attempt > now - time_window) (login_attempts ip))
      in if length (cleaned ip) \<ge> max_attempts
         then (if is_json req
               then ((Jsonify_message False too_many, 429), cleaned, sess, [])
               else ((Render_index (Some too_many), 429), cleaned, sess, []))
         else (let recorded = cleaned (ip := cleaned ip @ [now])
               in case f req sess of (resp, sess', calls) \<Rightarrow> (resp, recorded, sess', calls)))"

subsection \<open>Views\<close>

text \<open>The decorator \<open>login_required\<close>.\<close>

definition login_required ::
  "(('cg, 'cp) session \<Rightarrow> ('cg, 'cp) response) \<Rightarrow> ('cg, 'cp) session \<Rightarrow> ('cg, 'cp) response" where
  "login_required f flask_session =
     (if rollno flask_session = None then (Redirect ''/'', 302) else f flask_session)"

definition home :: "('cg, 'cp) response" where
  "home = (Render_index None, 200)"

text \<open>
  The idiom repeated through \<open>login\<close>: a JSON object \<open>{"ok": False, "message": m}\<close> for a
  JSON request, the index page with \<open>error=m\<close> otherwise, with the given status.
\<close>

definition refuse :: "request \<Rightarrow> string \<Rightarrow> nat \<Rightarrow> ('cg, 'cp) response" where
  "refuse req m code =
     (if is_json req then (Jsonify_message False m, code) else (Render_index (Some m), code))"

definition internal_error :: string where
  "internal_error = ''An internal error occurred. Please try again later.''"

text \<open>
  The \<open>try\<close> block of \<open>login\<close>: \<open>Inl e\<close> when a statement raises \<open>e\<close>, together with the
  calls made up to there. Nothing is stored in the session before the last call has
  returned.
\<close>

definition login_try ::
  "('raw, 'so, 'cg, 'cp) bunker_mod \<Rightarrow> request \<Rightarrow> string \<Rightarrow> string \<Rightarrow> bool \<Rightarrow>
   ('cg, 'cp) session \<Rightarrow> (exn + ('cg, 'cp) response \<times> ('cg, 'cp) session) \<times> ext_call list" where
  "login_try ext req rno password remember_me flask_session =
     (case return_attendance ext rno password of
        Inl e \<Rightarrow> (Inl e, [Call_return_attendance rno password])
      | Inr (RStr result) \<Rightarrow>
          (Inr (refuse req result 401, flask_session), [Call_return_attendance rno password])
      | Inr ROther \<Rightarrow>
          (Inl ''cannot unpack'', [Call_return_attendance rno password])
      | Inr (RPair attendance_raw session_obj) \<Rightarrow>
          (case get_course_plan ext session_obj of
             Inl e \<Rightarrow> (Inl e, [Call_return_attendance rno password, Call_get_course_plan])
           | Inr plan \<Rightarrow>
               (case data_json ext attendance_raw plan of
                  Inl e \<Rightarrow> (Inl e, [Call_return_attendance rno password, Call_get_course_plan,
                                    Call_data_json])
                | Inr att \<Rightarrow>
                    (case return_cgpa ext session_obj of
                       Inl e \<Rightarrow> (Inl e, [Call_return_attendance rno password,
                                         Call_get_course_plan, Call_data_json, Call_return_cgpa])
                     | Inr cgpa \<Rightarrow>
                         (Inr (if is_json req
                               then (Jsonify_message True ''Login successful'', 200)
                               else (Render_dashboard rno att (Some cgpa), 200),
                               flask_session\<lparr>attendance_data := Some att,
                                 cgpa_data := Some cgpa, course_plan := Some plan,
                                 rollno := Some rno, permanent := remember_me\<rparr>),
                          [Call_return_attendance rno password, Call_get_course_plan,
                           Call_data_json, Call_return_cgpa])))))"

text \<open>The view \<open>login\<close>, before decoration.\<close>

definition login ::
  "('raw, 'so, 'cg, 'cp) bunker_mod \<Rightarrow> request \<Rightarrow> ('cg, 'cp) session \<Rightarrow>
   ('cg, 'cp) response \<times> ('cg, 'cp) session \<times> ext_call list" where
  "login ext req flask_session =
     (let rno = strip (case rollno_arg req of None \<Rightarrow> [] | Some s \<Rightarrow> s);
          password = (case password_arg req of None \<Rightarrow> [] | Some s \<Rightarrow> s);
          remember_me = (if is_json req
                         then (case remember_me_json req of None \<Rightarrow> False | Some b \<Rightarrow> b)
                         else remember_me_form req = Some ''on'')
      in if rno = [] \<or> password = []
         then (refuse req ''Roll number and password are required'' 400, flask_session, [])
         else if \<not> re_match_rollno rno
         then (refuse req ''Invalid roll number format.'' 400, flask_session, [])
         else (case login_try ext req rno password remember_me flask_session of
                 (Inr (resp, sess'), calls) \<Rightarrow> (resp, sess', calls)
               | (Inl e, calls) \<Rightarrow> (refuse req internal_error 500, flask_session, calls)))"

text \<open>The route \<open>POST /login\<close>: \<open>@rate_limit(max_attempts=5, time_window=300)\<close> on \<open>login\<close>.\<close>

definition login_route ::
  "('raw, 'so, 'cg, 'cp) bunker_mod \<Rightarrow> timestamp \<Rightarrow> request \<Rightarrow> attempts \<Rightarrow>
   ('cg, 'cp) session \<Rightarrow> ('cg, 'cp) response \<times> attempts \<times> ('cg, 'cp) session \<times> ext_call list" where
  "login_route ext = rate_limit 5 300 (login ext)"

subsection \<open>The attendance statistics\<close>

datatype py_error = KeyError | TypeError

text \<open>
  \<open>sum(subject[key] for subject in attendance_data)\<close>: from the left, starting at 0. A
  record without the key raises \<open>KeyError\<close>, a string cannot be added to a number.
\<close>

fun sum_key :: "string \<Rightarrow> subject list \<Rightarrow> py_error + real" where
  "sum_key key [] = Inr 0"
| "sum_key key (subject # rest) =
     (case map_of subject key of
        None \<Rightarrow> Inl KeyError
      | Some (JStr s) \<Rightarrow> Inl TypeError
      | Some (JNum x) \<Rightarrow> (case sum_key key rest of Inl e \<Rightarrow> Inl e | Inr t \<Rightarrow> Inr (x + t)))"

text \<open>\<open>int(x)\<close> on a float truncates towards zero.\<close>

definition py_int :: "real \<Rightarrow> int" where
  "py_int x = (if x \<ge> 0 then \<lfloor>x\<rfloor> else \<lceil>x\<rceil>)"

text \<open>
  \<open>subject.get('course_title', subject.get('name', subject.get('original_name',
  'Unknown Course')))\<close>
\<close>

definition display_name :: "subject \<Rightarrow> jval" where
  "display_name subject =
     (case map_of subject ''course_title'' of
        Some v \<Rightarrow> v
      | None \<Rightarrow>
          (case map_of subject ''name'' of
             Some v \<Rightarrow> v
           | None \<Rightarrow>
               (case map_of subject ''original_name'' of
                  Some v \<Rightarrow> v
                | None \<Rightarrow> JStr ''Unknown Course'')))"

text \<open>The copy of a subject with the key \<open>display_name\<close> set.\<close>

definition subject_with_title :: "subject \<Rightarrow> subject" where
  "subject_with_title subject = AList.update ''display_name'' (display_name subject) subject"

text \<open>The view \<open>get_attendance\<close>, before decoration.\<close>

definition get_attendance :: "('cg, 'cp) session \<Rightarrow> ('cg, 'cp) response" where
  "get_attendance flask_session =
     (let data = (case attendance_data flask_session of None \<Rightarrow> [] | Some d \<Rightarrow> d)
      in if data = [] then (Jsonify_error ''No attendance data available'', 404)
         else
           (case sum_key ''total_hours'' data of
              Inl e \<Rightarrow> (Jsonify_error ''Failed to fetch attendance data'', 500)
            | Inr total_hours \<Rightarrow>
                (case sum_key ''total_present'' data of
                   Inl e \<Rightarrow> (Jsonify_error ''Failed to fetch attendance data'', 500)
                 | Inr total_present \<Rightarrow>
                     (let overall_percentage =
                            (if total_hours > 0 then total_present / total_hours * 100 else 0);
                          (need, bunkable) =
                            (if overall_percentage < 75
                             then (\<lceil>(0.75 * total_hours - total_present) / 0.25\<rceil>, 0)
                             else (0, py_int ((total_present - 0.75 * total_hours) / 0.75)))
                      in (Jsonify_attendance
                            \<lparr>subjects = map subject_with_title data,
                             total_days = total_hours,
                             attended_days = total_present,
                             percentage = overall_percentage,
                             need_days = need,
                             bunkable_days = bunkable\<rparr>, 200)))))"

definition get_cgpa :: "('cg, 'cp) session \<Rightarrow> ('cg, 'cp) response" where
  "get_cgpa flask_session = (Jsonify_cgpa (cgpa_data flask_session), 200)"

definition get_courses :: "('cg, 'cp) session \<Rightarrow> ('cg, 'cp) response" where
  "get_courses flask_session = (Jsonify_courses (course_plan flask_session), 200)"

text \<open>
  \<open>dashboard\<close>: \<open>flask_session['rollno']\<close> raises \<open>KeyError\<close> when the key is missing, and
  the handler of the view answers that with a redirect.
\<close>

definition dashboard :: "('cg, 'cp) session \<Rightarrow> ('cg, 'cp) response" where
  "dashboard flask_session =
     (case rollno flask_session of
        None \<Rightarrow> (Redirect ''/'', 302)
      | Some r \<Rightarrow>
          (Render_dashboard r
             (case attendance_data flask_session of None \<Rightarrow> [] | Some d \<Rightarrow> d)
             (cgpa_data flask_session), 200))"

text \<open>\<open>logout\<close>: \<open>flask_session.clear()\<close>, then the redirect.\<close>

definition logout :: "('cg, 'cp) session \<Rightarrow> ('cg, 'cp) response \<times> ('cg, 'cp) session" where
  "logout flask_session = ((Redirect ''/'', 302), empty_session)"

definition favicon :: "('cg, 'cp) response" where
  "favicon = (Send_file ''favicon.ico'', 200)"

definition health_check :: "('cg, 'cp) response" where
  "health_check = (Jsonify_health, 200)"

subsection \<open>The route table\<close>

datatype route =
    Get_home
  | Post_login request
  | Get_attendance
  | Get_cgpa
  | Get_courses
  | Get_dashboard
  | Get_logout
  | Get_favicon
  | Get_health

text \<open>
  One request of a client: the clock reading, the route, and the state before (the
  table of attempts and the client's session); the response and the state after.
\<close>

fun handle ::
  "('raw, 'so, 'cg, 'cp) bunker_mod \<Rightarrow> timestamp \<Rightarrow> route \<Rightarrow> attempts \<times> ('cg, 'cp) session \<Rightarrow>
   ('cg, 'cp) response \<times> attempts \<times> ('cg, 'cp) session" where
  "handle ext now Get_home (la, sess) = (home, la, sess)"
| "handle ext now (Post_login req) (la, sess) =
     (case login_route ext now req la sess of (resp, la', sess', calls) \<Rightarrow> (resp, la', sess'))"
| "handle ext now Get_attendance (la, sess) = (login_required get_attendance sess, la, sess)"
| "handle ext now Get_cgpa (la, sess) = (login_required get_cgpa sess, la, sess)"
| "handle ext now Get_courses (la, sess) = (login_required get_courses sess, la, sess)"
| "handle ext now Get_dashboard (la, sess) = (login_required dashboard sess, la, sess)"
| "handle ext now Get_logout (la, sess) = (case logout sess of (resp, sess') \<Rightarrow> (resp, la, sess'))"
| "handle ext now Get_favicon (la, sess) = (favicon, la, sess)"
| "handle ext now Get_health (la, sess) = (health_check, la, sess)"

text \<open>The state after a sequence of requests of one client.\<close>

fun run ::
  "('raw, 'so, 'cg, 'cp) bunker_mod \<Rightarrow> (timestamp \<times> route) list \<Rightarrow>
   attempts \<times> ('cg, 'cp) session \<Rightarrow> attempts \<times> ('cg, 'cp) session" where
  "run ext [] st = st"
| "run ext ((now, r) # rs) st = run ext rs (snd (handle ext now r st))"

text \<open>No request of the sequence is a login that is answered with status 200.\<close>

fun no_login_success ::
  "('raw, 'so, 'cg, 'cp) bunker_mod \<Rightarrow> (timestamp \<times> route) list \<Rightarrow>
   attempts \<times> ('cg, 'cp) session \<Rightarrow> bool" where
  "no_login_success ext [] st = True"
| "no_login_success ext ((now, r) # rs) st =
     ((case r of Post_login req \<Rightarrow> status (fst (handle ext now r st)) \<noteq> 200 | _ \<Rightarrow> True)
      \<and> no_login_success ext rs (snd (handle ext now r st)))"

text \<open>No request of the sequence is answered 429.\<close>

fun attempts_admitted ::
  "('raw, 'so, 'cg, 'cp) bunker_mod \<Rightarrow> (timestamp \<times> route) list \<Rightarrow>
   attempts \<times> ('cg, 'cp) session \<Rightarrow> bool" where
  "attempts_admitted ext [] st = True"
| "attempts_admitted ext ((now, r) # rs) st =
     (status (fst (handle ext now r st)) \<noteq> 429
      \<and> attempts_admitted ext rs (snd (handle ext now r st)))"

subsection \<open>Readings of a response\<close>

fun report_of :: "('cg, 'cp) response \<Rightarrow> report option" where
  "report_of (Jsonify_attendance r, code) = Some r"
| "report_of (other, code) = None"

text \<open>The values stored under one key in the subjects of a report, \<open>None\<close> where it is absent.\<close>

definition field_of :: "string \<Rightarrow> report \<Rightarrow> jval option list" where
  "field_of key r = map (\<lambda>subject. map_of subject key) (subjects r)"

subsection \<open>Properties named by the specification\<close>



subsection \<open>Sample inputs\<close>

text \<open>
  A collaborator that accepts the password \<open>secret\<close>, loses its connection on the password
  \<open>boom\<close> and refuses every other one.
\<close>

definition example_mod :: "(nat, nat, nat, nat) bunker_mod" where
  "example_mod =
     \<lparr>return_attendance =
        (\<lambda>r p. if p = ''secret'' then Inr (RPair 7 8)
               else if p = ''boom'' then Inl ''connection reset''
               else Inr (RStr ''Invalid credentials'')),
      get_course_plan = (\<lambda>so. Inr 1),
      data_json = (\<lambda>raw plan. Inr [[(''name'', JStr ''Maths''), (''total_hours'', JNum 100),
                                     (''total_present'', JNum 70)]]),
      return_cgpa = (\<lambda>so. Inr 9)\<rparr>"

definition example_req :: "string \<Rightarrow> string \<Rightarrow> request" where
  "example_req r p = \<lparr>remote_addr = ''10.0.0.1'', is_json = True, rollno_arg = Some r,
     password_arg = Some p, remember_me_json = None, remember_me_form = None\<rparr>"

text \<open>Five attempts from one address, at the seconds 0 to 4; and no attempt at all.\<close>

definition example_attempts :: attempts where
  "example_attempts = (\<lambda>ip. [])(''10.0.0.1'' := [0, 1, 2, 3, 4])"

definition no_attempts :: attempts where
  "no_attempts = (\<lambda>ip. [])"

definition example_subject :: "string \<Rightarrow> real \<Rightarrow> real \<Rightarrow> subject" where
  "example_subject n hours present =
     [(''name'', JStr n), (''total_hours'', JNum hours), (''total_present'', JNum present)]"

text \<open>A logged-in session that holds the given attendance records and nothing else.\<close>

definition session_with :: "subject list option \<Rightarrow> (nat, nat) session" where
  "session_with data = \<lparr>rollno = Some ''21IT066'', attendance_data = data, cgpa_data = None,
     course_plan = None, permanent = False\<rparr>"

text \<open>
  What a client does after logging out at second 10: it asks for the dashboard, tries a
  wrong password, and asks for the attendance.
\<close>

definition example_requests :: "(timestamp \<times> route) list" where
  "example_requests =
     [(11, Get_dashboard), (12, Post_login (example_req ''21IT066'' ''wrong'')),
      (13, Get_attendance)]"

section \<open>The rate limiter\<close>

lemma login_status:
  "login ext req sess = (resp, sess', calls) \<Longrightarrow> status resp \<in> {200, 400, 401, 500}"
  by (auto simp: login_def login_try_def Let_def refuse_def status_def
      split: if_splits sum.splits scraped.splits prod.splits)

text \<open>Only the limiter answers 429: a login is answered 429 exactly when it is not admitted.\<close>

lemma login_route_429_iff:
  "status (fst (login_route ext now req la sess)) = 429 \<longleftrightarrow>
     5 \<le> length (filter (\<lambda>attempt. attempt > now - 300) (la (remote_addr req)))"
proof (cases "5 \<le> length (filter (\<lambda>attempt. attempt > now - 300) (la (remote_addr req)))")
  case True
  then show ?thesis
    by (simp add: login_route_def rate_limit_def Let_def status_def)
next
  case False
  obtain resp sess' calls where l: "login ext req sess = (resp, sess', calls)"
    by (cases "login ext req sess")
  then have "status resp \<noteq> 429" using login_status [OF l] by auto
  with False l show ?thesis
    by (simp add: login_route_def rate_limit_def Let_def)
qed

text \<open>
  C1. When the attempts of an address that lie within the last 300 seconds number five
  (or more), a POST to \<open>/login\<close> from that address is answered with status 429 and the
  message "Too many login attempts. Please try again later.", whatever the credentials
  and the collaborator: the view does not run (no collaborator call, session as before)
  and the attempt is not recorded.
\<close>

theorem rate_limit_rejects_after_five:
  assumes "5 \<le> length (filter (\<lambda>attempt. attempt > now - 300) (la (remote_addr req)))"
  shows "case login_route ext now req la sess of (resp, la', sess', calls) \<Rightarrow>
           status resp = 429 \<and> message resp = Some too_many
           \<and> la' (remote_addr req) =
               filter (\<lambda>attempt. attempt > now - 300) (la (remote_addr req))
           \<and> sess' = sess \<and> calls = []"
  using assms by (simp add: login_route_def rate_limit_def Let_def status_def)

text \<open>
  Five attempts at the seconds 0 to 4; the sixth, at second 5 and with credentials the
  collaborator would accept, is answered 429.
\<close>

theorem rate_limit_rejects_after_five_witness:
  "5 \<le> length (filter (\<lambda>attempt. attempt > 5 - 300)
                 (example_attempts (remote_addr (example_req ''21IT066'' ''secret''))))
   \<and> status (fst (login_route example_mod 5 (example_req ''21IT066'' ''secret'')
                  example_attempts empty_session)) = 429
   \<and> message (fst (login_route example_mod 5 (example_req ''21IT066'' ''secret'')
                  example_attempts empty_session))
       = Some ''Too many login attempts. Please try again later.''"
proof -
  have h: "5 \<le> length (filter (\<lambda>attempt. attempt > 5 - 300)
                 (example_attempts (remote_addr (example_req ''21IT066'' ''secret''))))"
    by (simp add: example_attempts_def example_req_def)
  from h rate_limit_rejects_after_five
    [where now = 5 and la = example_attempts and req = "example_req ''21IT066'' ''secret''"
       and ext = example_mod and sess = empty_session]
  show ?thesis by (simp add: case_prod_beta too_many_def)
qed

text \<open>
  C10. A POST to \<open>/login\<close> that is not answered 429 leaves, for the caller's address, the
  attempts of the last 300 seconds followed by the current time, whatever the view
  answers (200, 400, 401 or 500); that list has at most five entries, and the lists of
  the other addresses are as before.
\<close>

theorem admitted_attempt_recorded:
  assumes "status (fst (login_route ext now req la sess)) \<noteq> 429"
  shows "case login_route ext now req la sess of (resp, la', sess', calls) \<Rightarrow>
           la' (remote_addr req) =
             filter (\<lambda>attempt. attempt > now - 300) (la (remote_addr req)) @ [now]
           \<and> length (la' (remote_addr req)) \<le> 5
           \<and> (\<forall>ip. ip \<noteq> remote_addr req \<longrightarrow> la' ip = la ip)"
  using assms
  by (auto simp: login_route_def rate_limit_def Let_def status_def split: prod.splits if_splits)

text \<open>
  A malformed request (answered 400) at second 301, after attempts at the seconds 0 to 4:
  the attempt at 0 has left the window, the others stay and 301 is added.
\<close>

theorem admitted_attempt_recorded_witness:
  "status (fst (login_route example_mod 301 (example_req ''ABC'' ''secret'')
                  example_attempts empty_session)) \<noteq> 429
   \<and> status (fst (login_route example_mod 301 (example_req ''ABC'' ''secret'')
                  example_attempts empty_session)) = 400
   \<and> fst (snd (login_route example_mod 301 (example_req ''ABC'' ''secret'')
                  example_attempts empty_session)) ''10.0.0.1'' = [2, 3, 4, 301]
   \<and> fst (snd (login_route example_mod 301 (example_req ''ABC'' ''secret'')
                  example_attempts empty_session)) ''10.0.0.2'' = []"
proof -
  have h: "status (fst (login_route example_mod 301 (example_req ''ABC'' ''secret'')
                  example_attempts empty_session)) \<noteq> 429"
    by code_simp
  have s: "status (fst (login_route example_mod 301 (example_req ''ABC'' ''secret'')
                  example_attempts empty_session)) = 400"
    by code_simp
  from admitted_attempt_recorded [OF h] h s
  show ?thesis by (simp add: case_prod_beta example_attempts_def example_req_def)
qed

text \<open>
  The limiter over a sequence of requests. An admitted login at time \<open>t\<close> prunes only
  attempts that are also out of the window of any later time \<open>now\<close>, and adds \<open>t\<close>.
\<close>

lemma admitted_step:
  assumes "status (fst (handle ext t (Post_login req) (la, sess))) \<noteq> 429"
    and "t \<le> now"
  shows "filter (\<lambda>a. a > now - 300)
           (fst (snd (handle ext t (Post_login req) (la, sess))) (remote_addr req))
         = filter (\<lambda>a. a > now - 300) (la (remote_addr req))
           @ (if t > now - 300 then [t] else [])"
proof -
  have adm: "\<not> 5 \<le> length (filter (\<lambda>attempt. attempt > t - 300) (la (remote_addr req)))"
    using assms(1) login_route_429_iff [of ext t req la sess]
    by (simp split: prod.splits)
  have "filter (\<lambda>a. a > now - 300) (filter (\<lambda>attempt. attempt > t - 300) xs)
        = filter (\<lambda>a. a > now - 300) xs" for xs
    using assms(2) by (induction xs) auto
  with adm show ?thesis
    by (simp add: login_route_def rate_limit_def Let_def split: prod.splits)
qed

lemma admitted_run:
  assumes "\<forall>(t, r) \<in> set rs.
             (\<exists>req. r = Post_login req \<and> remote_addr req = ip) \<and> now - 300 < t \<and> t \<le> now"
    and "attempts_admitted ext rs st"
  shows "length (filter (\<lambda>a. a > now - 300) (fst (run ext rs st) ip))
         = length (filter (\<lambda>a. a > now - 300) (fst st ip)) + length rs"
  using assms
proof (induction rs arbitrary: st)
  case Nil
  then show ?case by simp
next
  case (Cons a rs)
  obtain t r where a: "a = (t, r)" by (cases a)
  obtain la sess where st: "st = (la, sess)" by (cases st)
  from Cons.prems(1) a obtain req where r: "r = Post_login req" "remote_addr req = ip"
    and t: "now - 300 < t" "t \<le> now"
    by auto
  from Cons.prems(2) a st r
  have adm: "status (fst (handle ext t (Post_login req) (la, sess))) \<noteq> 429"
    and rest: "attempts_admitted ext rs (snd (handle ext t (Post_login req) (la, sess)))"
    by simp_all
  have step: "filter (\<lambda>a. a > now - 300)
                (fst (snd (handle ext t (Post_login req) (la, sess))) ip)
              = filter (\<lambda>a. a > now - 300) (la ip) @ [t]"
    using admitted_step [OF adm t(2)] r(2) t(1) by simp
  from Cons.prems(1)
  have "\<forall>(t, r) \<in> set rs.
          (\<exists>req. r = Post_login req \<and> remote_addr req = ip) \<and> now - 300 < t \<and> t \<le> now"
    by simp
  from Cons.IH [OF this rest] step a st r show ?case by simp
qed

text \<open>
  After five (or more) logins from one address that were admitted, whatever their
  outcome, all within the 300 seconds before \<open>now\<close>, a login from that address at \<open>now\<close>
  is answered 429, whatever its credentials.
\<close>

lemma sixth_attempt_rejected:
  assumes "\<forall>(t, r) \<in> set rs.
             (\<exists>req. r = Post_login req \<and> remote_addr req = ip) \<and> now - 300 < t \<and> t \<le> now"
    and "attempts_admitted ext rs st" and "5 \<le> length rs" and "remote_addr req = ip"
  shows "status (fst (handle ext now (Post_login req) (run ext rs st))) = 429"
proof -
  obtain la sess where after: "run ext rs st = (la, sess)" by (cases "run ext rs st")
  from admitted_run [OF assms(1,2)] assms(3) after
  have "5 \<le> length (filter (\<lambda>a. a > now - 300) (la ip))" by simp
  with assms(4) have "status (fst (login_route ext now req la sess)) = 429"
    by (simp add: login_route_429_iff)
  with after show ?thesis by (simp add: case_prod_beta)
qed

section \<open>Validation of the login form\<close>











section \<open>The outcome of the collaborator call\<close>

text \<open>
  The call \<open>return_attendance(rollno, password)\<close> is made only for a request the limiter
  admits, with the trimmed roll number and the password of the request, both non-empty,
  the roll number of the required form.
\<close>

lemma login_call_made:
  assumes "Call_return_attendance rno password
             \<in> set (snd (snd (snd (login_route ext now req la sess))))"
  shows "length (filter (\<lambda>attempt. attempt > now - 300) (la (remote_addr req))) < 5
         \<and> rno = strip (case rollno_arg req of None \<Rightarrow> [] | Some s \<Rightarrow> s)
         \<and> password = (case password_arg req of None \<Rightarrow> [] | Some s \<Rightarrow> s)
         \<and> rno \<noteq> [] \<and> password \<noteq> [] \<and> re_match_rollno rno"
  using assms
  by (auto simp: login_route_def rate_limit_def login_def login_try_def Let_def
      split: prod.splits if_splits sum.splits scraped.splits)

text \<open>The outcomes of a request that passes the limiter and the validation.\<close>

lemma login_outcomes_when_valid:
  assumes "length (filter (\<lambda>attempt. attempt > now - 300) (la (remote_addr req))) < 5"
    and "rno = strip (case rollno_arg req of None \<Rightarrow> [] | Some s \<Rightarrow> s)"
    and "password = (case password_arg req of None \<Rightarrow> [] | Some s \<Rightarrow> s)"
    and "rno \<noteq> []" and "password \<noteq> []" and "re_match_rollno rno"
  shows "case login_route ext now req la sess of (resp, la', sess', calls) \<Rightarrow>
           (\<forall>m. return_attendance ext rno password = Inr (RStr m) \<longrightarrow>
               status resp = 401 \<and> message resp = Some m \<and> sess' = sess)
         \<and> (\<forall>raw so plan att cgpa.
               return_attendance ext rno password = Inr (RPair raw so)
               \<and> get_course_plan ext so = Inr plan \<and> data_json ext raw plan = Inr att
               \<and> return_cgpa ext so = Inr cgpa \<longrightarrow>
               resp = (if is_json req then (Jsonify_message True ''Login successful'', 200)
                       else (Render_dashboard rno att (Some cgpa), 200))
               \<and> status resp = 200
               \<and> rollno sess' = Some rno \<and> attendance_data sess' = Some att
               \<and> cgpa_data sess' = Some cgpa \<and> course_plan sess' = Some plan)
         \<and> ((\<exists>e. return_attendance ext rno password = Inl e)
             \<or> return_attendance ext rno password = Inr ROther
             \<or> (\<exists>raw so. return_attendance ext rno password = Inr (RPair raw so)
                  \<and> ((\<exists>e. get_course_plan ext so = Inl e)
                     \<or> (\<exists>plan. get_course_plan ext so = Inr plan
                          \<and> ((\<exists>e. data_json ext raw plan = Inl e)
                             \<or> (\<exists>e. return_cgpa ext so = Inl e))))) \<longrightarrow>
               status resp = 500 \<and> message resp = Some internal_error \<and> sess' = sess)"
  using assms
  by (auto simp: login_route_def rate_limit_def login_def login_try_def Let_def status_def
      refuse_def split: prod.splits if_splits sum.splits scraped.splits)

text \<open>
  C6. Take a POST to \<open>/login\<close> during which the call \<open>return_attendance(rollno, password)\<close>
  is made. If the call returns a string, the answer is 401 with that string as message
  and the session is unchanged. If it returns a pair and the three further calls return,
  the answer is 200 (the JSON message "Login successful" or the dashboard page) and the
  session holds the roll number, the attendance records, the CGPA data and the course
  plan. If any of the four calls raises, or the result cannot be unpacked, the answer is
  500 with the fixed message "An internal error occurred. Please try again later.", which
  is the same for every exception, and the session is unchanged.
\<close>

theorem login_scraper_outcomes:
  assumes "Call_return_attendance rno password
             \<in> set (snd (snd (snd (login_route ext now req la sess))))"
  shows "case login_route ext now req la sess of (resp, la', sess', calls) \<Rightarrow>
           (\<forall>m. return_attendance ext rno password = Inr (RStr m) \<longrightarrow>
               status resp = 401 \<and> message resp = Some m \<and> sess' = sess)
         \<and> (\<forall>raw so plan att cgpa.
               return_attendance ext rno password = Inr (RPair raw so)
               \<and> get_course_plan ext so = Inr plan \<and> data_json ext raw plan = Inr att
               \<and> return_cgpa ext so = Inr cgpa \<longrightarrow>
               resp = (if is_json req then (Jsonify_message True ''Login successful'', 200)
                       else (Render_dashboard rno att (Some cgpa), 200))
               \<and> status resp = 200
               \<and> rollno sess' = Some rno \<and> attendance_data sess' = Some att
               \<and> cgpa_data sess' = Some cgpa \<and> course_plan sess' = Some plan)
         \<and> ((\<exists>e. return_attendance ext rno password = Inl e)
             \<or> return_attendance ext rno password = Inr ROther
             \<or> (\<exists>raw so. return_attendance ext rno password = Inr (RPair raw so)
                  \<and> ((\<exists>e. get_course_plan ext so = Inl e)
                     \<or> (\<exists>plan. get_course_plan ext so = Inr plan
                          \<and> ((\<exists>e. data_json ext raw plan = Inl e)
                             \<or> (\<exists>e. return_cgpa ext so = Inl e))))) \<longrightarrow>
               status resp = 500 \<and> message resp = Some internal_error \<and> sess' = sess)"
proof -
  from login_call_made [OF assms]
  have "length (filter (\<lambda>attempt. attempt > now - 300) (la (remote_addr req))) < 5"
    and "rno = strip (case rollno_arg req of None \<Rightarrow> [] | Some s \<Rightarrow> s)"
    and "password = (case password_arg req of None \<Rightarrow> [] | Some s \<Rightarrow> s)"
    and "rno \<noteq> []" and "password \<noteq> []" and "re_match_rollno rno"
    by blast+
  then show ?thesis by (rule login_outcomes_when_valid)
qed

text \<open>
  The three outcomes at the sample collaborator: a refused password, an accepted one, and
  one on which the call raises.
\<close>

theorem login_scraper_outcomes_witness:
  "Call_return_attendance ''21IT066'' ''wrong''
     \<in> set (snd (snd (snd (login_route example_mod 5 (example_req ''21IT066'' ''wrong'')
                               no_attempts empty_session))))
   \<and> return_attendance example_mod ''21IT066'' ''wrong'' = Inr (RStr ''Invalid credentials'')
   \<and> status (fst (login_route example_mod 5 (example_req ''21IT066'' ''wrong'')
                  no_attempts empty_session)) = 401
   \<and> message (fst (login_route example_mod 5 (example_req ''21IT066'' ''wrong'')
                  no_attempts empty_session)) = Some ''Invalid credentials''
   \<and> Call_return_attendance ''21IT066'' ''secret''
       \<in> set (snd (snd (snd (login_route example_mod 5 (example_req ''21IT066'' ''secret'')
                                 no_attempts empty_session))))
   \<and> return_attendance example_mod ''21IT066'' ''secret'' = Inr (RPair 7 8)
   \<and> status (fst (login_route example_mod 5 (example_req ''21IT066'' ''secret'')
                  no_attempts empty_session)) = 200
   \<and> rollno (fst (snd (snd (login_route example_mod 5 (example_req ''21IT066'' ''secret'')
                  no_attempts empty_session)))) = Some ''21IT066''
   \<and> attendance_data (fst (snd (snd (login_route example_mod 5
                  (example_req ''21IT066'' ''secret'') no_attempts empty_session))))
       = Some [example_subject ''Maths'' 100 70]
   \<and> Call_return_attendance ''21IT066'' ''boom''
       \<in> set (snd (snd (snd (login_route example_mod 5 (example_req ''21IT066'' ''boom'')
                                 no_attempts empty_session))))
   \<and> return_attendance example_mod ''21IT066'' ''boom'' = Inl ''connection reset''
   \<and> status (fst (login_route example_mod 5 (example_req ''21IT066'' ''boom'')
                  no_attempts empty_session)) = 500
   \<and> message (fst (login_route example_mod 5 (example_req ''21IT066'' ''boom'')
                  no_attempts empty_session))
       = Some ''An internal error occurred. Please try again later.''"
proof -
  have called: "Call_return_attendance ''21IT066'' ''wrong''
       \<in> set (snd (snd (snd (login_route example_mod 5 (example_req ''21IT066'' ''wrong'')
                                 no_attempts empty_session))))"
    "Call_return_attendance ''21IT066'' ''secret''
       \<in> set (snd (snd (snd (login_route example_mod 5 (example_req ''21IT066'' ''secret'')
                                 no_attempts empty_session))))"
    "Call_return_attendance ''21IT066'' ''boom''
       \<in> set (snd (snd (snd (login_route example_mod 5 (example_req ''21IT066'' ''boom'')
                                 no_attempts empty_session))))"
    by code_simp+
  have ra: "return_attendance example_mod ''21IT066'' ''wrong'' = Inr (RStr ''Invalid credentials'')"
    "return_attendance example_mod ''21IT066'' ''secret'' = Inr (RPair 7 8)"
    "return_attendance example_mod ''21IT066'' ''boom'' = Inl ''connection reset''"
    "get_course_plan example_mod 8 = Inr 1"
    "data_json example_mod 7 1 = Inr [example_subject ''Maths'' 100 70]"
    "return_cgpa example_mod 8 = Inr 9"
    by (simp_all add: example_mod_def example_subject_def)
  have refused: "status (fst (login_route example_mod 5 (example_req ''21IT066'' ''wrong'')
                  no_attempts empty_session)) = 401
      \<and> message (fst (login_route example_mod 5 (example_req ''21IT066'' ''wrong'')
                  no_attempts empty_session)) = Some ''Invalid credentials''"
    using login_scraper_outcomes [OF called(1)] ra
    by (simp add: case_prod_beta)
  have accepted: "status (fst (login_route example_mod 5 (example_req ''21IT066'' ''secret'')
                  no_attempts empty_session)) = 200
      \<and> rollno (fst (snd (snd (login_route example_mod 5 (example_req ''21IT066'' ''secret'')
                  no_attempts empty_session)))) = Some ''21IT066''
      \<and> attendance_data (fst (snd (snd (login_route example_mod 5
                  (example_req ''21IT066'' ''secret'') no_attempts empty_session))))
          = Some [example_subject ''Maths'' 100 70]"
    using login_scraper_outcomes [OF called(2)] ra
    by (simp add: case_prod_beta example_req_def status_def)
  have raised: "status (fst (login_route example_mod 5 (example_req ''21IT066'' ''boom'')
                  no_attempts empty_session)) = 500
      \<and> message (fst (login_route example_mod 5 (example_req ''21IT066'' ''boom'')
                  no_attempts empty_session))
          = Some ''An internal error occurred. Please try again later.''"
    using login_scraper_outcomes [OF called(3)] ra
    by (simp add: case_prod_beta internal_error_def)
  from called ra(1-3) refused accepted raised
  show ?thesis by simp
qed

section \<open>The attendance statistics\<close>

text \<open>
  A successful answer of \<open>get_attendance\<close> comes from a non-empty list of records whose
  two sums exist, and is the report computed from the sums.
\<close>

lemma get_attendance_report:
  assumes "get_attendance sess = (Jsonify_attendance r, code)"
  obtains data th tp where "attendance_data sess = Some data" "data \<noteq> []"
    "sum_key ''total_hours'' data = Inr th" "sum_key ''total_present'' data = Inr tp"
    "code = 200"
    "r = \<lparr>subjects = map subject_with_title data, total_days = th, attended_days = tp,
        percentage = (if th > 0 then tp / th * 100 else 0),
        need_days = (if (if th > 0 then tp / th * 100 else 0) < 75
                     then \<lceil>(0.75 * th - tp) / 0.25\<rceil> else 0),
        bunkable_days = (if (if th > 0 then tp / th * 100 else 0) < 75 then 0
                         else py_int ((tp - 0.75 * th) / 0.75))\<rparr>"
  using assms
  by (auto simp: get_attendance_def Let_def split: option.splits if_splits sum.splits)






text \<open>
  C8, as stated, at a record that has both a name and a course title: the name is
  present, and the display name is the course title.
\<close>

theorem display_name_prefers_course_title:
  "map_option (field_of ''name'') (report_of (get_attendance (session_with
      (Some [[(''name'', JStr ''MA101''), (''course_title'', JStr ''Calculus''),
              (''total_hours'', JNum 40), (''total_present'', JNum 36)]]))))
     = Some [Some (JStr ''MA101'')]
   \<and> map_option (field_of ''display_name'') (report_of (get_attendance (session_with
      (Some [[(''name'', JStr ''MA101''), (''course_title'', JStr ''Calculus''),
              (''total_hours'', JNum 40), (''total_present'', JNum 36)]]))))
     = Some [Some (JStr ''Calculus'')]"
  by (simp add: get_attendance_def session_with_def subject_with_title_def display_name_def
      field_of_def)

text \<open>
  C8, amended. In a successful answer of \<open>get_attendance\<close> there is one subject for each
  stored record, in the same order; its display name is the first one present in the
  order \<open>course_title\<close>, then \<open>name\<close>, then \<open>original_name\<close>, and "Unknown Course" when none
  is; every other key is as in the stored record.
\<close>

theorem display_name_fallback:
  assumes "get_attendance sess = (Jsonify_attendance r, code)"
    and "attendance_data sess = Some data" and "i < length data"
  shows "length (subjects r) = length data
         \<and> map_of (subjects r ! i) ''display_name'' =
             Some (case map_of (data ! i) ''course_title'' of
                     Some title \<Rightarrow> title
                   | None \<Rightarrow>
                       (case map_of (data ! i) ''name'' of
                          Some name \<Rightarrow> name
                        | None \<Rightarrow>
                            (case map_of (data ! i) ''original_name'' of
                               Some original \<Rightarrow> original
                             | None \<Rightarrow> JStr ''Unknown Course'')))
         \<and> (\<forall>key. key \<noteq> ''display_name'' \<longrightarrow>
               map_of (subjects r ! i) key = map_of (data ! i) key)"
proof -
  from assms(1) obtain d where "attendance_data sess = Some d"
    and "subjects r = map subject_with_title d"
    by (rule get_attendance_report) simp
  with assms(2) have r: "subjects r = map subject_with_title data" by simp
  show ?thesis
    using assms(3) unfolding r
    by (simp add: subject_with_title_def display_name_def update_conv')
qed

text \<open>
  A record with a name only is displayed under its name; the totals 100 and 70 are those
  of the report.
\<close>

theorem display_name_fallback_witness:
  "get_attendance (session_with (Some [example_subject ''Maths'' 100 70]))
     = (Jsonify_attendance
          \<lparr>subjects = [[(''name'', JStr ''Maths''), (''total_hours'', JNum 100),
                        (''total_present'', JNum 70), (''display_name'', JStr ''Maths'')]],
           total_days = 100, attended_days = 70, percentage = 70, need_days = 20,
           bunkable_days = 0\<rparr>, 200)
   \<and> attendance_data (session_with (Some [example_subject ''Maths'' 100 70]))
       = Some [example_subject ''Maths'' 100 70]
   \<and> (0::nat) < length [example_subject ''Maths'' 100 70]
   \<and> map_of ([(''name'', JStr ''Maths''), (''total_hours'', JNum 100),
               (''total_present'', JNum 70), (''display_name'', JStr ''Maths'')])
         ''display_name'' = Some (JStr ''Maths'')"
proof -
  have a: "get_attendance (session_with (Some [example_subject ''Maths'' 100 70]))
     = (Jsonify_attendance
          \<lparr>subjects = [[(''name'', JStr ''Maths''), (''total_hours'', JNum 100),
                        (''total_present'', JNum 70), (''display_name'', JStr ''Maths'')]],
           total_days = 100, attended_days = 70, percentage = 70, need_days = 20,
           bunkable_days = 0\<rparr>, 200)"
    by (simp add: get_attendance_def session_with_def example_subject_def
        subject_with_title_def display_name_def)
  have b: "attendance_data (session_with (Some [example_subject ''Maths'' 100 70]))
       = Some [example_subject ''Maths'' 100 70]"
    by (simp add: session_with_def)
  have c: "(0::nat) < length [example_subject ''Maths'' 100 70]" by simp
  from display_name_fallback [OF a b c] a b c show ?thesis
    by (simp add: example_subject_def)
qed

section \<open>Session-gated views and logout\<close>

text \<open>
  C4, as stated, at \<open>/cgpa\<close> and \<open>/courses\<close>: the session is logged in, it holds neither
  CGPA data nor a course plan, and both answers are 200, not 404.
\<close>

theorem cgpa_and_courses_missing_data_not_404:
  "rollno (session_with None) = Some ''21IT066''
   \<and> cgpa_data (session_with None) = None \<and> course_plan (session_with None) = None
   \<and> status (fst (handle example_mod 5 Get_cgpa (no_attempts, session_with None))) = 200
   \<and> status (fst (handle example_mod 5 Get_cgpa (no_attempts, session_with None))) \<noteq> 404
   \<and> status (fst (handle example_mod 5 Get_courses (no_attempts, session_with None))) = 200
   \<and> status (fst (handle example_mod 5 Get_courses (no_attempts, session_with None))) \<noteq> 404"
  by (simp add: session_with_def login_required_def get_cgpa_def get_courses_def status_def)

text \<open>
  C4, amended. For a logged-in session, \<open>/attendance\<close> answers 404 ("No attendance data
  available") when the attendance records are missing or empty; \<open>/cgpa\<close> and \<open>/courses\<close>
  answer 200 with the empty JSON object when the CGPA data or the course plan is
  missing.
\<close>

theorem missing_session_data:
  assumes "rollno sess \<noteq> None"
  shows "(attendance_data sess = None \<or> attendance_data sess = Some [] \<longrightarrow>
            fst (handle ext now Get_attendance (la, sess))
              = (Jsonify_error ''No attendance data available'', 404))
         \<and> (cgpa_data sess = None \<longrightarrow>
              fst (handle ext now Get_cgpa (la, sess)) = (Jsonify_cgpa None, 200))
         \<and> (course_plan sess = None \<longrightarrow>
              fst (handle ext now Get_courses (la, sess)) = (Jsonify_courses None, 200))"
  using assms
  by (auto simp: login_required_def get_attendance_def get_cgpa_def get_courses_def)

text \<open>A logged-in session that holds no data at all.\<close>

theorem missing_session_data_witness:
  "rollno (session_with None) \<noteq> None
   \<and> attendance_data (session_with None) = None
   \<and> cgpa_data (session_with None) = None
   \<and> course_plan (session_with None) = None
   \<and> status (fst (handle example_mod 5 Get_attendance (no_attempts, session_with None))) = 404
   \<and> fst (handle example_mod 5 Get_cgpa (no_attempts, session_with None))
       = (Jsonify_cgpa None, 200)
   \<and> fst (handle example_mod 5 Get_courses (no_attempts, session_with None))
       = (Jsonify_courses None, 200)"
proof -
  have h: "rollno (session_with None) \<noteq> None" by (simp add: session_with_def)
  have d: "attendance_data (session_with None) = None" "cgpa_data (session_with None) = None"
    "course_plan (session_with None) = None"
    by (simp_all add: session_with_def)
  from missing_session_data [OF h, of example_mod 5 no_attempts] h d
  show ?thesis by (simp add: status_def)
qed

text \<open>A failed login leaves the session as it was.\<close>

lemma login_keeps_session:
  "login ext req sess = (resp, sess', calls) \<Longrightarrow> status resp \<noteq> 200 \<Longrightarrow> sess' = sess"
  by (auto simp: login_def login_try_def Let_def refuse_def status_def
      split: if_splits sum.splits scraped.splits prod.splits)

text \<open>No request other than a login answered 200 puts a roll number into the session.\<close>

lemma handle_keeps_logged_out:
  assumes "rollno sess = None"
    and "case r of Post_login req \<Rightarrow> status (fst (handle ext now r (la, sess))) \<noteq> 200 | _ \<Rightarrow> True"
  shows "rollno (snd (snd (handle ext now r (la, sess)))) = None"
proof (cases r)
  case (Post_login req)
  obtain resp sess' calls where l: "login ext req sess = (resp, sess', calls)"
    by (cases "login ext req sess")
  show ?thesis
  proof (cases "5 \<le> length (filter (\<lambda>attempt. attempt > now - 300) (la (remote_addr req)))")
    case True
    with Post_login assms(1) show ?thesis
      by (simp add: login_route_def rate_limit_def Let_def)
  next
    case False
    with Post_login l assms(2) have "status resp \<noteq> 200"
      by (simp add: login_route_def rate_limit_def Let_def)
    with l have "sess' = sess" by (rule login_keeps_session)
    with False Post_login l assms(1) show ?thesis
      by (simp add: login_route_def rate_limit_def Let_def)
  qed
qed (use assms(1) in \<open>simp_all add: logout_def empty_session_def\<close>)

lemma run_keeps_logged_out:
  "rollno (snd st) = None \<Longrightarrow> no_login_success ext rs st \<Longrightarrow>
   rollno (snd (run ext rs st)) = None"
proof (induction rs arbitrary: st)
  case Nil
  then show ?case by simp
next
  case (Cons a rs)
  obtain now r where a: "a = (now, r)" by (cases a)
  obtain la sess where st: "st = (la, sess)" by (cases st)
  from Cons.prems a st have "rollno (snd (snd (handle ext now r (la, sess)))) = None"
    by (intro handle_keeps_logged_out) auto
  with Cons.IH [of "snd (handle ext now r st)"] Cons.prems(2) a st show ?case by simp
qed

text \<open>
  C5. A request to \<open>/logout\<close> is answered with a redirect to the home page and leaves the
  empty session: no roll number, attendance data, CGPA data or course plan. After it,
  whatever requests the client makes, as long as none of them is a login answered 200,
  a request to \<open>/dashboard\<close> is redirected to the home page.
\<close>

theorem logout_clears_session:
  "snd (logout sess) = empty_session
   \<and> rollno (snd (logout sess)) = None \<and> attendance_data (snd (logout sess)) = None
   \<and> cgpa_data (snd (logout sess)) = None \<and> course_plan (snd (logout sess)) = None
   \<and> fst (handle ext t Get_logout (la, sess)) = (Redirect ''/'', 302)
   \<and> (\<forall>rs t'. no_login_success ext rs (snd (handle ext t Get_logout (la, sess))) \<longrightarrow>
         fst (handle ext t' Get_dashboard (run ext rs (snd (handle ext t Get_logout (la, sess)))))
           = (Redirect ''/'', 302))"
proof -
  define st where "st = snd (handle ext t Get_logout (la, sess))"
  have st: "st = (la, empty_session)" by (simp add: st_def logout_def)
  have "fst (handle ext t' Get_dashboard (run ext rs st)) = (Redirect ''/'', 302)"
    if quiet: "no_login_success ext rs st" for rs t'
  proof -
    have "rollno (snd st) = None" by (simp add: st empty_session_def)
    then have out: "rollno (snd (run ext rs st)) = None"
      using quiet by (rule run_keeps_logged_out)
    obtain la' sess' where after: "run ext rs st = (la', sess')" by (cases "run ext rs st")
    with out have "rollno sess' = None" by simp
    then show ?thesis by (simp add: after login_required_def)
  qed
  then show ?thesis
    unfolding st_def [symmetric] by (simp add: logout_def empty_session_def st)
qed

text \<open>
  A logged-in client sees the dashboard at second 9 and logs out at second 10. It then
  asks for the dashboard, tries to log in with a wrong password and asks for the
  attendance; at second 14 the dashboard still redirects to the home page.
\<close>

theorem logout_clears_session_witness:
  "status (fst (handle example_mod 9 Get_dashboard
      (no_attempts, session_with (Some [example_subject ''Maths'' 100 70])))) = 200
   \<and> no_login_success example_mod example_requests
        (snd (handle example_mod 10 Get_logout
           (no_attempts, session_with (Some [example_subject ''Maths'' 100 70]))))
   \<and> fst (handle example_mod 14 Get_dashboard (run example_mod example_requests
        (snd (handle example_mod 10 Get_logout
           (no_attempts, session_with (Some [example_subject ''Maths'' 100 70]))))))
       = (Redirect ''/'', 302)
   \<and> snd (logout (session_with (Some [example_subject ''Maths'' 100 70])))
       = (empty_session :: (nat, nat) session)"
proof -
  have before: "status (fst (handle example_mod 9 Get_dashboard
      (no_attempts, session_with (Some [example_subject ''Maths'' 100 70])))) = 200"
    by (simp add: login_required_def dashboard_def session_with_def status_def)
  have quiet: "no_login_success example_mod example_requests
        (snd (handle example_mod 10 Get_logout
           (no_attempts, session_with (Some [example_subject ''Maths'' 100 70]))))"
    by code_simp
  note all = logout_clears_session
    [of "session_with (Some [example_subject ''Maths'' 100 70])" example_mod 10 no_attempts]
  from all have "\<forall>rs t'. no_login_success example_mod rs
        (snd (handle example_mod 10 Get_logout
           (no_attempts, session_with (Some [example_subject ''Maths'' 100 70])))) \<longrightarrow>
      fst (handle example_mod t' Get_dashboard (run example_mod rs
        (snd (handle example_mod 10 Get_logout
           (no_attempts, session_with (Some [example_subject ''Maths'' 100 70]))))))
       = (Redirect ''/'', 302)"
    by (elim conjE)
  with quiet have "fst (handle example_mod 14 Get_dashboard (run example_mod example_requests
        (snd (handle example_mod 10 Get_logout
           (no_attempts, session_with (Some [example_subject ''Maths'' 100 70]))))))
       = (Redirect ''/'', 302)"
    by blast
  moreover from all have "snd (logout (session_with (Some [example_subject ''Maths'' 100 70])))
       = (empty_session :: (nat, nat) session)"
    by (elim conjE)
  ultimately show ?thesis using before quiet by simp
qed

end
